theory Spec2Isabelle
  imports Complex_Main "HOL-Library.Word"
begin

section \<open>Python values used by \<open>sid.py\<close>\<close>

text \<open>
  The embedding follows \<open>src/sid.py\<close> function by function.

  \<^item> A Python \<open>str\<close> is a list of Unicode code points (\<open>pystr\<close>); \<open>ustr\<close> turns an
    Isabelle literal into one. A \<open>bytes\<close> object is a list of 8-bit words.
  \<^item> A Python \<open>float\<close> is modelled by an exact rational number: the arithmetic of the
    source (\<open>/\<close>, \<open>+\<close>, \<open>abs\<close>, \<open>round\<close>, \<open>:.1f\<close>) is carried out without the rounding
    error, overflow, infinities, NaN and signed zero of IEEE doubles. For file sizes
    below \<open>2^53\<close> the divisions by 1024 of \<open>human_size\<close> are exact in both.
  \<^item> An exception is a value of \<open>exn\<close>; the body of every \<open>try\<close> block is a function
    into \<open>exn + 'a\<close>, and the \<open>except Exception\<close> clause is the case distinction on it.
\<close>

datatype exn =
  TypeError | ValueError | IndexError | KeyError | ZeroDivisionError | AttributeError
  | UnicodeError | OSError

type_synonym pystr = "nat list"

type_synonym pybytes = "8 word list"

definition ustr :: "string \<Rightarrow> pystr" where
  "ustr s = map of_char s"

text \<open>\<open>str(n)\<close> for a non-negative integer, and for any integer.\<close>

fun str_nat :: "nat \<Rightarrow> pystr" where
  "str_nat n = (if n < 10 then [48 + n] else str_nat (n div 10) @ [48 + n mod 10])"

declare str_nat.simps [simp del]

definition str_int :: "int \<Rightarrow> pystr" where
  "str_int i = (if i < 0 then ustr ''-'' @ str_nat (nat (- i)) else str_nat (nat i))"

text \<open>Rounding to the nearest integer, ties to the even one (Python's \<open>round\<close> and
  the \<open>f\<close> presentation type both round the exact value this way).\<close>

definition round_half_even :: "rat \<Rightarrow> int" where
  "round_half_even y =
     (let f = \<lfloor>y\<rfloor>; d = y - of_int f
      in if d < 1 / 2 then f else if 1 / 2 < d then f + 1 else if even f then f else f + 1)"

text \<open>\<open>round(x, nd)\<close> on a float.\<close>

definition py_round :: "rat \<Rightarrow> nat \<Rightarrow> rat" where
  "py_round x nd = of_int (round_half_even (x * 10 ^ nd)) / 10 ^ nd"

text \<open>\<open>f"{x:.1f}"\<close>: sign, integer part, a point and one digit.\<close>

definition format_1f :: "rat \<Rightarrow> pystr" where
  "format_1f x =
     (let t = nat (round_half_even (\<bar>x\<bar> * 10))
      in (if x < 0 then ustr ''-'' else []) @ str_nat (t div 10) @ ustr ''.'' @ str_nat (t mod 10))"


section \<open>\<open>human_size\<close>\<close>

text \<open>
  \<^verbatim>\<open>
  def human_size(n: int) -> str:
      for unit in ['B','KB','MB','GB','TB']:
          if n < 1024.0:
              return f"{n:.1f}{unit}"
          n /= 1024.0
      return f"{n:.1f}PB"
  \<close>
  The loop over the five units is the recursion over the list of units.
\<close>

fun human_size_loop :: "rat \<Rightarrow> pystr list \<Rightarrow> pystr" where
  "human_size_loop n [] = format_1f n @ ustr ''PB''"
| "human_size_loop n (unit # units) =
     (if n < 1024 then format_1f n @ unit else human_size_loop (n / 1024) units)"

definition size_units :: "pystr list" where
  "size_units = map ustr [''B'', ''KB'', ''MB'', ''GB'', ''TB'']"

definition human_size :: "int \<Rightarrow> pystr" where
  "human_size n = human_size_loop (of_int n) size_units"


section \<open>\<open>ratio_to_float\<close> and \<open>dms_to_decimal\<close>\<close>

text \<open>
  The values that reach the two converters. A scalar is a number or \<open>None\<close> (which
  stands for every object that \<open>float()\<close> rejects with a \<open>TypeError\<close>; text is not
  modelled here). A value is a scalar, an object with the attributes \<open>num\<close> and
  \<open>den\<close> (exifread's \<open>Ratio\<close>, both integers), a tuple of scalars, or a list of
  values (the \<open>values\<close> of a GPS tag are a list of three \<open>Ratio\<close> objects).
\<close>

datatype pyscalar = PyInt int | PyFloat rat | PyNone

datatype pyval = Scalar pyscalar | Ratio int int | Tuple "pyscalar list" | PyList "pyval list"

text \<open>\<open>float(v)\<close>, \<open>v != 0\<close> and \<open>a / b\<close> on floats.\<close>

fun float_of :: "pyscalar \<Rightarrow> exn + rat" where
  "float_of (PyInt i) = Inr (of_int i)"
| "float_of (PyFloat x) = Inr x"
| "float_of PyNone = Inl TypeError"

fun ne_zero :: "pyscalar \<Rightarrow> bool" where
  "ne_zero (PyInt i) = (i \<noteq> 0)"
| "ne_zero (PyFloat x) = (x \<noteq> 0)"
| "ne_zero PyNone = True"

definition float_div :: "rat \<Rightarrow> rat \<Rightarrow> exn + rat" where
  "float_div a b = (if b = 0 then Inl ZeroDivisionError else Inr (a / b))"

text \<open>
  \<^verbatim>\<open>
  def ratio_to_float(r):
      try:
          if hasattr(r, 'num') and hasattr(r, 'den'):
              return float(r.num) / float(r.den) if r.den != 0 else 0.0
          if isinstance(r, tuple) and len(r) == 2:
              num, den = r
              return float(num) / float(den) if den != 0 else 0.0
          return float(r)
      except Exception:
          return None
  \<close>
  \<open>ratio_to_float_try\<close> is the body of the \<open>try\<close>; the conditional expression tests
  the denominator before it converts anything.
\<close>

fun ratio_to_float_try :: "pyval \<Rightarrow> exn + rat" where
  "ratio_to_float_try (Ratio num den) =
     (if den \<noteq> 0 then float_div (of_int num) (of_int den) else Inr 0)"
| "ratio_to_float_try (Tuple [num, den]) =
     (if ne_zero den
      then (case float_of num of
              Inl e \<Rightarrow> Inl e
            | Inr a \<Rightarrow> (case float_of den of Inl e \<Rightarrow> Inl e | Inr b \<Rightarrow> float_div a b))
      else Inr 0)"
| "ratio_to_float_try (Tuple xs) = Inl TypeError"
| "ratio_to_float_try (PyList xs) = Inl TypeError"
| "ratio_to_float_try (Scalar v) = float_of v"

definition ratio_to_float :: "pyval \<Rightarrow> rat option" where
  "ratio_to_float r = (case ratio_to_float_try r of Inl e \<Rightarrow> None | Inr x \<Rightarrow> Some x)"

text \<open>\<open>dms[i]\<close>: lists and tuples are indexed, anything else is not subscriptable.\<close>

fun getitem :: "pyval \<Rightarrow> nat \<Rightarrow> exn + pyval" where
  "getitem (PyList xs) i = (if i < length xs then Inr (xs ! i) else Inl IndexError)"
| "getitem (Tuple xs) i = (if i < length xs then Inr (Scalar (xs ! i)) else Inl IndexError)"
| "getitem (Ratio num den) i = Inl TypeError"
| "getitem (Scalar v) i = Inl TypeError"

text \<open>
  \<^verbatim>\<open>
  def dms_to_decimal(dms):
      try:
          d = ratio_to_float(dms[0])
          m = ratio_to_float(dms[1])
          s = ratio_to_float(dms[2])
          if d is None or m is None or s is None:
              return None
          return d + (m / 60.0) + (s / 3600.0)
      except Exception:
          return None
  \<close>
\<close>

definition dms_to_decimal_try :: "pyval \<Rightarrow> exn + rat option" where
  "dms_to_decimal_try dms =
     (case getitem dms 0 of
        Inl e \<Rightarrow> Inl e
      | Inr x0 \<Rightarrow>
          let d = ratio_to_float x0 in
          (case getitem dms 1 of
             Inl e \<Rightarrow> Inl e
           | Inr x1 \<Rightarrow>
               let m = ratio_to_float x1 in
               (case getitem dms 2 of
                  Inl e \<Rightarrow> Inl e
                | Inr x2 \<Rightarrow>
                    let s = ratio_to_float x2 in
                    (case (d, m, s) of
                       (Some d', Some m', Some s') \<Rightarrow> Inr (Some (d' + m' / 60 + s' / 3600))
                     | _ \<Rightarrow> Inr None))))"

definition dms_to_decimal :: "pyval \<Rightarrow> rat option" where
  "dms_to_decimal dms = (case dms_to_decimal_try dms of Inl e \<Rightarrow> None | Inr r \<Rightarrow> r)"


section \<open>\<open>parse_exifread_tags\<close>\<close>

text \<open>
  The argument \<open>tags\<close> is the dictionary that \<open>exifread.process_file\<close> returns, from
  tag names to tag objects. An \<open>IfdTag\<close> has a printable text (what \<open>str()\<close> gives)
  and \<open>values\<close>; any other stored object (exifread keeps the thumbnail as plain
  bytes) has a text but no attribute \<open>values\<close>.
\<close>

datatype tagval = IfdTag pystr pyval | RawValue pystr

type_synonym tagdict = "pystr \<rightharpoonup> tagval"

fun tag_str :: "tagval \<Rightarrow> pystr" where
  "tag_str (IfdTag text vals) = text"
| "tag_str (RawValue text) = text"

fun values_of :: "tagval \<Rightarrow> exn + pyval" where
  "values_of (IfdTag text vals) = Inr vals"
| "values_of (RawValue text) = Inl AttributeError"

text \<open>\<open>tags[k]\<close> and \<open>str(tags.get(k, ''))\<close>.\<close>

definition subscript :: "tagdict \<Rightarrow> string \<Rightarrow> exn + tagval" where
  "subscript tags k = (case tags (ustr k) of None \<Rightarrow> Inl KeyError | Some v \<Rightarrow> Inr v)"

definition str_get_default :: "tagdict \<Rightarrow> string \<Rightarrow> pystr" where
  "str_get_default tags k = (case tags (ustr k) of None \<Rightarrow> [] | Some v \<Rightarrow> tag_str v)"

text \<open>The local function \<open>get(k)\<close>: \<open>str(tags[k]) if k in tags else None\<close>.\<close>

definition get :: "tagdict \<Rightarrow> string \<Rightarrow> pystr option" where
  "get tags k = (case tags (ustr k) of None \<Rightarrow> None | Some v \<Rightarrow> Some (tag_str v))"

text \<open>\<open>a or b\<close> on values that are a text or \<open>None\<close>: \<open>a\<close> when it is a non-empty
  text, else \<open>b\<close>.\<close>

definition str_or :: "pystr option \<Rightarrow> pystr option \<Rightarrow> pystr option" where
  "str_or a b = (case a of None \<Rightarrow> b | Some s \<Rightarrow> if s \<noteq> [] then a else b)"

text \<open>\<open>s.upper()\<close> on the ASCII letters (the reference tags of EXIF are ASCII; Python
  also maps letters beyond ASCII, which the model leaves unchanged), and
  \<open>s.startswith(p)\<close>.\<close>

definition upper_cp :: "nat \<Rightarrow> nat" where
  "upper_cp c = (if 97 \<le> c \<and> c \<le> 122 then c - 32 else c)"

definition upper :: "pystr \<Rightarrow> pystr" where
  "upper s = map upper_cp s"

definition startswith :: "pystr \<Rightarrow> string \<Rightarrow> bool" where
  "startswith s p = (take (length p) s = ustr p)"

record gps_entry =
  lat :: rat
  lon :: rat
  lat_ref :: pystr
  lon_ref :: pystr

record flat_tags =
  make_field :: "pystr option"
  model :: "pystr option"
  datetime_original :: "pystr option"
  software :: "pystr option"
  artist :: "pystr option"
  gps :: "gps_entry option"

text \<open>
  \<^verbatim>\<open>
      if 'GPS GPSLatitude' in tags and 'GPS GPSLongitude' in tags:
          try:
              lat_vals = tags['GPS GPSLatitude'].values
              lon_vals = tags['GPS GPSLongitude'].values
              lat_ref = str(tags.get('GPS GPSLatitudeRef', '')).upper()
              lon_ref = str(tags.get('GPS GPSLongitudeRef', '')).upper()
              lat = dms_to_decimal(lat_vals)
              lon = dms_to_decimal(lon_vals)
              if lat is not None and lon is not None:
                  if lat_ref and lat_ref.startswith('S'):
                      lat = -abs(lat)
                  if lon_ref and lon_ref.startswith('W'):
                      lon = -abs(lon)
                  out['gps'] = {'lat': round(lat, 6), 'lon': round(lon, 6),
                                'lat_ref': lat_ref, 'lon_ref': lon_ref}
          except Exception:
              pass
  \<close>
  \<open>gps_try\<close> is the body of the \<open>try\<close>: an exception, or the entry stored under
  \<open>'gps'\<close> if one is stored.
\<close>

definition gps_try :: "tagdict \<Rightarrow> exn + gps_entry option" where
  "gps_try tags =
     (case subscript tags ''GPS GPSLatitude'' of
        Inl e \<Rightarrow> Inl e
      | Inr lat_tag \<Rightarrow>
     (case values_of lat_tag of
        Inl e \<Rightarrow> Inl e
      | Inr lat_vals \<Rightarrow>
     (case subscript tags ''GPS GPSLongitude'' of
        Inl e \<Rightarrow> Inl e
      | Inr lon_tag \<Rightarrow>
     (case values_of lon_tag of
        Inl e \<Rightarrow> Inl e
      | Inr lon_vals \<Rightarrow>
          let lat_ref = upper (str_get_default tags ''GPS GPSLatitudeRef'');
              lon_ref = upper (str_get_default tags ''GPS GPSLongitudeRef'')
          in (case (dms_to_decimal lat_vals, dms_to_decimal lon_vals) of
                (Some la, Some lo) \<Rightarrow>
                  let la' = (if lat_ref \<noteq> [] \<and> startswith lat_ref ''S'' then - \<bar>la\<bar> else la);
                      lo' = (if lon_ref \<noteq> [] \<and> startswith lon_ref ''W'' then - \<bar>lo\<bar> else lo)
                  in Inr (Some \<lparr>lat = py_round la' 6, lon = py_round lo' 6,
                                 lat_ref = lat_ref, lon_ref = lon_ref\<rparr>)
              | _ \<Rightarrow> Inr None)))))"

text \<open>
  \<^verbatim>\<open>
  def parse_exifread_tags(tags):
      out = {}
      def get(k):
          return str(tags[k]) if k in tags else None
      out['make'] = get('Image Make') or get('Make')
      out['model'] = get('Image Model') or get('Model')
      out['datetime_original'] = get('EXIF DateTimeOriginal') or get('EXIF DateTimeDigitized') or get('Image DateTime')
      out['software'] = get('Image Software') or get('Software')
      out['artist'] = get('Image Artist') or get('EXIF Artist') or get('Artist')
      ... (the GPS block above)
      return out
  \<close>
  The key \<open>'gps'\<close> is absent from \<open>out\<close> unless the block stores it: \<open>gps = None\<close>.
  The field \<open>make_field\<close> is \<open>out['make']\<close> (the record package keeps \<open>make\<close> for itself).
\<close>

definition parse_exifread_tags :: "tagdict \<Rightarrow> flat_tags" where
  "parse_exifread_tags tags =
     \<lparr>make_field = str_or (get tags ''Image Make'') (get tags ''Make''),
      model = str_or (get tags ''Image Model'') (get tags ''Model''),
      datetime_original =
        str_or (str_or (get tags ''EXIF DateTimeOriginal'') (get tags ''EXIF DateTimeDigitized''))
          (get tags ''Image DateTime''),
      software = str_or (get tags ''Image Software'') (get tags ''Software''),
      artist = str_or (str_or (get tags ''Image Artist'') (get tags ''EXIF Artist''))
          (get tags ''Artist''),
      gps =
        (if tags (ustr ''GPS GPSLatitude'') \<noteq> None \<and> tags (ustr ''GPS GPSLongitude'') \<noteq> None
         then (case gps_try tags of Inl e \<Rightarrow> None | Inr g \<Rightarrow> g)
         else None)\<rparr>"


section \<open>\<open>parse_piexif\<close>\<close>

text \<open>
  A value stored by piexif under a tag is bytes, text, an integer or a tuple. What
  \<open>piexif.load\<close> returns maps each group name to a dictionary from tag numbers to
  values, or to something that is no dictionary (piexif keeps the thumbnail, bytes or
  \<open>None\<close>, under a key of its own). Both dictionaries are association lists in
  insertion order, looked up with \<open>map_of\<close>.
\<close>

datatype pxval = PxBytes pybytes | PxStr pystr | PxInt int | PxTuple "pxval list"

datatype ifdval = IfdDict "(nat \<times> pxval) list" | NotDict

type_synonym exdict = "(pystr \<times> ifdval) list"

type_synonym ifdout = "pystr \<rightharpoonup> pxval"

type_synonym tree = "pystr \<rightharpoonup> ifdout"

text \<open>
  \<open>val.decode('utf-8', errors='replace')\<close>: every maximal ill-formed part of the
  input becomes one U+FFFD (65533), as CPython's decoder does: a byte that cannot
  start a sequence is replaced alone, a sequence cut short by a byte that cannot
  continue it is replaced up to that byte, and a sequence cut short by the end of the
  input is replaced as a whole.
\<close>

definition is_cont :: "nat \<Rightarrow> bool" where
  "is_cont c = (128 \<le> c \<and> c < 192)"

definition second_ok :: "nat \<Rightarrow> nat \<Rightarrow> bool" where
  "second_ok b c =
     (is_cont c \<and> \<not> (b = 224 \<and> c < 160) \<and> \<not> (b = 237 \<and> 160 \<le> c)
      \<and> \<not> (b = 240 \<and> c < 144) \<and> \<not> (b = 244 \<and> 144 \<le> c))"

text \<open>One step of the decoder: the lead byte \<open>b\<close> and the bytes after it give the
  code point to emit and the input that is left.\<close>

definition utf8_step :: "nat \<Rightarrow> nat list \<Rightarrow> nat \<times> nat list" where
  "utf8_step b bs =
     (if b < 128 then (b, bs)
      else if b < 194 then (65533, bs)
      else if b < 224 then
        (case bs of
           [] \<Rightarrow> (65533, [])
         | c # cs \<Rightarrow>
             if is_cont c then ((b - 192) * 64 + (c - 128), cs) else (65533, bs))
      else if b < 240 then
        (case bs of
           [] \<Rightarrow> (65533, [])
         | c # cs \<Rightarrow>
             if \<not> second_ok b c then (65533, bs)
             else
               (case cs of
                  [] \<Rightarrow> (65533, [])
                | d # ds \<Rightarrow>
                    if is_cont d
                    then ((b - 224) * 4096 + (c - 128) * 64 + (d - 128), ds)
                    else (65533, cs)))
      else if b < 245 then
        (case bs of
           [] \<Rightarrow> (65533, [])
         | c # cs \<Rightarrow>
             if \<not> second_ok b c then (65533, bs)
             else
               (case cs of
                  [] \<Rightarrow> (65533, [])
                | d # ds \<Rightarrow>
                    if \<not> is_cont d then (65533, cs)
                    else
                      (case ds of
                         [] \<Rightarrow> (65533, [])
                       | e # es \<Rightarrow>
                           if is_cont e
                           then ((b - 240) * 262144 + (c - 128) * 4096 + (d - 128) * 64
                                 + (e - 128), es)
                           else (65533, ds))))
      else (65533, bs))"

lemma utf8_step_length: "length (snd (utf8_step b bs)) \<le> length bs"
  by (auto simp: utf8_step_def split: list.splits)

function utf8_replace :: "nat list \<Rightarrow> pystr" where
  "utf8_replace [] = []"
| "utf8_replace (b # bs) = (case utf8_step b bs of (cp, rest) \<Rightarrow> cp # utf8_replace rest)"
  by pat_completeness auto
termination
proof (relation "measure length")
  show "wf (measure length)" by simp
next
  fix b :: nat and bs x2 and cp :: nat and rest
  assume "(cp, rest) = utf8_step b bs"
  then have "rest = snd (utf8_step b bs)" by (metis snd_conv)
  then show "(rest, b # bs) \<in> measure length"
    using utf8_step_length [of b bs] by simp
qed

text \<open>The call is inside a \<open>try\<close> in the source, so its result is a sum; with
  \<open>errors='replace'\<close> it never is an exception.\<close>

definition decode_utf8_replace :: "pybytes \<Rightarrow> exn + pystr" where
  "decode_utf8_replace bs = Inr (utf8_replace (map unat bs))"

text \<open>\<open>s.strip('\x00')\<close> removes the NUL characters at both ends.\<close>

definition strip_nul :: "pystr \<Rightarrow> pystr" where
  "strip_nul s = dropWhile (\<lambda>c. c = 0) (rev (dropWhile (\<lambda>c. c = 0) (rev s)))"

text \<open>\<open>repr(val)\<close> (and \<open>str(val)\<close>) of bytes: \<open>b'...'\<close>, in double quotes when the
  bytes hold a single quote and no double quote, with backslash escapes.\<close>

definition hex_digit :: "nat \<Rightarrow> nat" where
  "hex_digit d = (if d < 10 then 48 + d else 87 + d)"

definition repr_byte :: "nat \<Rightarrow> nat \<Rightarrow> pystr" where
  "repr_byte quote c =
     (if c = quote \<or> c = 92 then [92, c]
      else if c = 9 then [92, 116]
      else if c = 10 then [92, 110]
      else if c = 13 then [92, 114]
      else if c < 32 \<or> 127 \<le> c then [92, 120, hex_digit (c div 16), hex_digit (c mod 16)]
      else [c])"

definition bytes_repr :: "pybytes \<Rightarrow> pystr" where
  "bytes_repr bs =
     (let cs = map unat bs;
          quote = (if 39 \<in> set cs \<and> 34 \<notin> set cs then 34 else 39)
      in [98, quote] @ concat (map (repr_byte quote) cs) @ [quote])"

text \<open>
  \<^verbatim>\<open>
  def parse_piexif(img_path: Path):
      try:
          ex = piexif.load(str(img_path))
      except Exception:
          return {}
      def clean(ifd):
          out = {}
          for tag, val in ex.get(ifd, {}).items():
              name = piexif.TAGS.get(ifd, {}).get(tag, {}).get('name', str(tag))
              if isinstance(val, bytes):
                  try:
                      out[name] = val.decode('utf-8', errors='replace').strip('\x00')
                  except Exception:
                      out[name] = repr(val)
              else:
                  out[name] = val
          return out
      return {ifd: clean(ifd) for ifd in ex.keys()}
  \<close>
  The table \<open>piexif.TAGS\<close> is a parameter \<open>T\<close>: \<open>T ifd tag\<close> is the \<open>'name'\<close> it holds
  for the tag of that group, if it holds one. The outcome of \<open>piexif.load\<close> is the
  argument. An exception of \<open>clean\<close> (\<open>.items()\<close> on something that is no dictionary)
  is not caught here.
\<close>

definition tag_name :: "(pystr \<Rightarrow> nat \<Rightarrow> pystr option) \<Rightarrow> pystr \<Rightarrow> nat \<Rightarrow> pystr" where
  "tag_name T ifd tag = (case T ifd tag of None \<Rightarrow> str_nat tag | Some name \<Rightarrow> name)"

fun clean_value :: "pxval \<Rightarrow> pxval" where
  "clean_value (PxBytes bs) =
     (case decode_utf8_replace bs of
        Inr s \<Rightarrow> PxStr (strip_nul s)
      | Inl e \<Rightarrow> PxStr (bytes_repr bs))"
| "clean_value val = val"

fun clean_items ::
  "(pystr \<Rightarrow> nat \<Rightarrow> pystr option) \<Rightarrow> pystr \<Rightarrow> (nat \<times> pxval) list \<Rightarrow> ifdout \<Rightarrow> ifdout" where
  "clean_items T ifd [] out = out"
| "clean_items T ifd ((tag, val) # rest) out =
     clean_items T ifd rest (out(tag_name T ifd tag \<mapsto> clean_value val))"

definition clean :: "(pystr \<Rightarrow> nat \<Rightarrow> pystr option) \<Rightarrow> exdict \<Rightarrow> pystr \<Rightarrow> exn + ifdout" where
  "clean T ex ifd =
     (case map_of ex ifd of
        None \<Rightarrow> Inr (clean_items T ifd [] Map.empty)
      | Some (IfdDict items) \<Rightarrow> Inr (clean_items T ifd items Map.empty)
      | Some NotDict \<Rightarrow> Inl AttributeError)"

fun clean_all ::
  "(pystr \<Rightarrow> nat \<Rightarrow> pystr option) \<Rightarrow> exdict \<Rightarrow> pystr list \<Rightarrow> tree \<Rightarrow> exn + tree" where
  "clean_all T ex [] out = Inr out"
| "clean_all T ex (ifd # ifds) out =
     (case clean T ex ifd of
        Inl e \<Rightarrow> Inl e
      | Inr c \<Rightarrow> clean_all T ex ifds (out(ifd \<mapsto> c)))"

definition parse_piexif :: "(pystr \<Rightarrow> nat \<Rightarrow> pystr option) \<Rightarrow> exn + exdict \<Rightarrow> exn + tree" where
  "parse_piexif T loaded =
     (case loaded of
        Inl e \<Rightarrow> Inr Map.empty
      | Inr ex \<Rightarrow> clean_all T ex (map fst ex) Map.empty)"


section \<open>\<open>extract_one\<close>\<close>

text \<open>
  \<open>extract_one\<close> reads one file through four library calls, each inside its own
  \<open>try\<close>. Their outcomes are the input of the model: the size from \<open>path.stat()\<close>,
  the format, width and height from \<open>Image.open\<close>, the tag dictionary from
  \<open>exifread.process_file\<close>, and the data from \<open>piexif.load\<close>.
\<close>

record observation =
  stat_size :: "exn + int"
  image_info :: "exn + pystr option \<times> int \<times> int"
  exif_tags :: "exn + tagdict"
  piexif_load :: "exn + exdict"

text \<open>The dictionary \<open>highlights\<close>; a key that is not set is \<open>None\<close>. The text under
  \<open>'gps_decimal'\<close> (the two floats printed by \<open>str\<close>) is not modelled.\<close>

record highlight_rec =
  hl_device :: "pystr option"
  hl_author :: "pxval option"
  hl_software :: "pxval option"
  hl_datetime_original :: "pxval option"
  hl_gps :: "gps_entry option"
  hl_dimensions :: "pystr option"
  hl_file_size :: "pystr option"
  hl_notes :: "pystr list"

text \<open>The dictionary \<open>result\<close>, without the file name and path. An error text
  \<open>str(e)\<close> is kept as the exception; \<open>exifread = None\<close> is the empty dictionary
  that \<open>result['exifread']\<close> starts as.\<close>

record result =
  size_bytes :: "int option"
  size_human :: "pystr option"
  width :: "int option"
  height :: "int option"
  format :: "pystr option"
  pil_error :: "exn option"
  exifread :: "flat_tags option"
  exifread_raw :: "(pystr \<rightharpoonup> pystr) option"
  exifread_error :: "exn option"
  piexif :: tree
  piexif_error :: "exn option"
  highlights :: highlight_rec

text \<open>Truth values of Python objects, and \<open>a or b\<close>.\<close>

fun truthy :: "pxval \<Rightarrow> bool" where
  "truthy (PxBytes bs) = (bs \<noteq> [])"
| "truthy (PxStr s) = (s \<noteq> [])"
| "truthy (PxInt i) = (i \<noteq> 0)"
| "truthy (PxTuple xs) = (xs \<noteq> [])"

definition truthy_opt :: "pxval option \<Rightarrow> bool" where
  "truthy_opt a = (case a of None \<Rightarrow> False | Some v \<Rightarrow> truthy v)"

definition or_else :: "pxval option \<Rightarrow> pxval option \<Rightarrow> pxval option" where
  "or_else a b = (if truthy_opt a then a else b)"

text \<open>\<open>parsed.get(k)\<close>, where \<open>parsed\<close> is the flat result or \<open>{}\<close>, and
  \<open>result['piexif'].get(ifd, {}).get(name)\<close>.\<close>

definition parsed_get :: "flat_tags option \<Rightarrow> (flat_tags \<Rightarrow> pystr option) \<Rightarrow> pxval option" where
  "parsed_get parsed field =
     (case parsed of None \<Rightarrow> None | Some p \<Rightarrow> map_option PxStr (field p))"

definition tree_get :: "tree \<Rightarrow> string \<Rightarrow> string \<Rightarrow> pxval option" where
  "tree_get t ifd name = (case t (ustr ifd) of None \<Rightarrow> None | Some d \<Rightarrow> d (ustr name))"

text \<open>\<open>' '.join(xs)\<close>: a \<open>TypeError\<close> when an item is not text.\<close>

fun join_space :: "pxval list \<Rightarrow> exn + pystr" where
  "join_space [] = Inr []"
| "join_space [PxStr s] = Inr s"
| "join_space (PxStr s # rest) =
     (case join_space rest of Inl e \<Rightarrow> Inl e | Inr r \<Rightarrow> Inr (s @ ustr '' '' @ r))"
| "join_space (v # rest) = Inl TypeError"

text \<open>\<open>[x for x in [make, model] if x]\<close>.\<close>

fun truthy_items :: "pxval option list \<Rightarrow> pxval list" where
  "truthy_items [] = []"
| "truthy_items (None # xs) = truthy_items xs"
| "truthy_items (Some v # xs) = (if truthy v then v # truthy_items xs else truthy_items xs)"

text \<open>
  \<^verbatim>\<open>
      dt = parsed.get('datetime_original')
      if not dt:
          dt = result['piexif'].get('0th', {}).get('DateTime') or result['piexif'].get('Exif', {}).get('DateTimeOriginal')
          if isinstance(dt, bytes):
              try:
                  dt = dt.decode('utf-8', errors='replace')
              except Exception:
                  dt = str(dt)
  \<close>
\<close>

definition datetime_of :: "flat_tags option \<Rightarrow> tree \<Rightarrow> pxval option" where
  "datetime_of parsed t =
     (let dt = parsed_get parsed datetime_original
      in if truthy_opt dt then dt
         else
           (case or_else (tree_get t ''0th'' ''DateTime'') (tree_get t ''Exif'' ''DateTimeOriginal'') of
              Some (PxBytes bs) \<Rightarrow>
                (case decode_utf8_replace bs of
                   Inr s \<Rightarrow> Some (PxStr s)
                 | Inl e \<Rightarrow> Some (PxStr (bytes_repr bs)))
            | dt' \<Rightarrow> dt'))"

definition note_gps :: pystr where
  "note_gps = ustr ''No GPS data found (or stripped by app).''"

definition note_author :: pystr where
  "note_author = ustr ''No author/artist metadata found.''"

definition note_device :: pystr where
  "note_device = ustr ''No device/make/model info found.''"

definition note_datetime :: pystr where
  "note_datetime = ustr ''No DateTimeOriginal found.''"

text \<open>
  \<^verbatim>\<open>
      notes = []
      if not highlights.get('gps'):
          notes.append("No GPS data found (or stripped by app).")
      if not highlights.get('author'):
          notes.append("No author/artist metadata found.")
      if not highlights.get('device'):
          notes.append("No device/make/model info found.")
      if not highlights.get('datetime_original'):
          notes.append("No DateTimeOriginal found.")
  \<close>
  The tests are on the truth value of what \<open>get\<close> returns: a stored GPS dictionary
  has four keys and is true, a stored text is true when it is not empty.
\<close>

definition build_notes ::
  "gps_entry option \<Rightarrow> pxval option \<Rightarrow> pystr option \<Rightarrow> pxval option \<Rightarrow> pystr list" where
  "build_notes g author device dt =
     (if \<not> (case g of None \<Rightarrow> False | Some e \<Rightarrow> True) then [note_gps] else [])
     @ (if \<not> truthy_opt author then [note_author] else [])
     @ (if \<not> (case device of None \<Rightarrow> False | Some s \<Rightarrow> s \<noteq> []) then [note_device] else [])
     @ (if \<not> truthy_opt dt then [note_datetime] else [])"

text \<open>
  The part of \<open>extract_one\<close> after the four reads (lines 164 to 213 of the source):
  \<^verbatim>\<open>
      highlights = {}
      make = parsed.get('make') or result['piexif'].get('0th', {}).get('Make')
      model = parsed.get('model') or result['piexif'].get('0th', {}).get('Model')
      if make or model:
          highlights['device'] = ' '.join([x for x in [make, model] if x])
      artist = parsed.get('artist') or result['piexif'].get('0th', {}).get('Artist')
      if artist:
          highlights['author'] = artist
      software = parsed.get('software') or result['piexif'].get('0th', {}).get('Software')
      if software:
          highlights['software'] = software
      ... (dt, above)
      if dt:
          highlights['datetime_original'] = dt
      gps = parsed.get('gps') or None
      if gps:
          highlights['gps_decimal'] = f"{gps['lat']}, {gps['lon']}"
          highlights['gps'] = gps
      if result['width'] and result['height']:
          highlights['dimensions'] = f"{result['width']}x{result['height']}"
      if result['size_human']:
          highlights['file_size'] = result['size_human']
      ... (notes, above)
      highlights['notes'] = notes
  \<close>
  The \<open>join\<close> is outside every \<open>try\<close>: its \<open>TypeError\<close> leaves \<open>extract_one\<close>.
\<close>

definition build_highlights ::
  "flat_tags option \<Rightarrow> tree \<Rightarrow> int option \<Rightarrow> int option \<Rightarrow> pystr option \<Rightarrow> exn + highlight_rec" where
  "build_highlights parsed t w h size_h =
     (let mk = or_else (parsed_get parsed make_field) (tree_get t ''0th'' ''Make'');
          md = or_else (parsed_get parsed model) (tree_get t ''0th'' ''Model'');
          device =
            (if truthy_opt mk \<or> truthy_opt md
             then (case join_space (truthy_items [mk, md]) of
                     Inl e \<Rightarrow> Inl e
                   | Inr s \<Rightarrow> Inr (Some s))
             else Inr None)
      in case device of
           Inl e \<Rightarrow> Inl e
         | Inr dev \<Rightarrow>
             let art = or_else (parsed_get parsed artist) (tree_get t ''0th'' ''Artist'');
                 author = (if truthy_opt art then art else None);
                 sw = or_else (parsed_get parsed software) (tree_get t ''0th'' ''Software'');
                 sw' = (if truthy_opt sw then sw else None);
                 dt = datetime_of parsed t;
                 dt' = (if truthy_opt dt then dt else None);
                 g = (case parsed of None \<Rightarrow> None | Some p \<Rightarrow> gps p);
                 dims =
                   (case (w, h) of
                      (Some w', Some h') \<Rightarrow>
                        if w' \<noteq> 0 \<and> h' \<noteq> 0 then Some (str_int w' @ ustr ''x'' @ str_int h')
                        else None
                    | _ \<Rightarrow> None);
                 fsize = (case size_h of None \<Rightarrow> None | Some s \<Rightarrow> if s \<noteq> [] then Some s else None)
             in Inr \<lparr>hl_device = dev, hl_author = author, hl_software = sw',
                     hl_datetime_original = dt', hl_gps = g, hl_dimensions = dims,
                     hl_file_size = fsize, hl_notes = build_notes g author dev dt'\<rparr>)"

text \<open>
  The four reads (lines 118 to 162 of the source). A failed \<open>stat\<close> leaves the sizes
  \<open>None\<close>; a failed \<open>Image.open\<close> sets \<open>pil_error\<close>; a failed \<open>process_file\<close> sets
  \<open>exifread_error\<close> and \<open>parsed = {}\<close>; an exception of \<open>parse_piexif\<close> sets
  \<open>piexif_error\<close> and leaves \<open>result['piexif']\<close> empty.
\<close>

definition extract_one :: "(pystr \<Rightarrow> nat \<Rightarrow> pystr option) \<Rightarrow> observation \<Rightarrow> exn + result" where
  "extract_one T obs =
     (let (sb, sh) =
            (case stat_size obs of
               Inr n \<Rightarrow> (Some n, Some (human_size n))
             | Inl e \<Rightarrow> (None, None));
          (fmt, w, h, perr) =
            (case image_info obs of
               Inr (f, w', h') \<Rightarrow> (f, Some w', Some h', None)
             | Inl e \<Rightarrow> (None, None, None, Some e));
          (raw, parsed, eerr) =
            (case exif_tags obs of
               Inr tags \<Rightarrow>
                 (Some (\<lambda>k. map_option tag_str (tags k)), Some (parse_exifread_tags tags), None)
             | Inl e \<Rightarrow> (None, None, Some e));
          (t, xerr) =
            (case parse_piexif T (piexif_load obs) of
               Inr t' \<Rightarrow> (t', None)
             | Inl e \<Rightarrow> (Map.empty, Some e))
      in case build_highlights parsed t w h sh of
           Inl e \<Rightarrow> Inl e
         | Inr hl \<Rightarrow>
             Inr \<lparr>size_bytes = sb, size_human = sh, width = w, height = h, format = fmt,
                  pil_error = perr, exifread = parsed, exifread_raw = raw, exifread_error = eerr,
                  piexif = t, piexif_error = xerr, highlights = hl\<rparr>)"


section \<open>Sample inputs\<close>

text \<open>The four GPS tag names, and tag dictionaries used as concrete inputs below: the
  coordinates 40 26' 46.302" N, 79 56' 55.903" W; the same with a latitude tag that is
  no \<open>IfdTag\<close>; the same with a latitude of two components only.\<close>

definition gps_keys :: "pystr set" where
  "gps_keys = {ustr ''GPS GPSLatitude'', ustr ''GPS GPSLongitude'',
               ustr ''GPS GPSLatitudeRef'', ustr ''GPS GPSLongitudeRef''}"

definition gps_sample :: tagdict where
  "gps_sample =
     [ustr ''GPS GPSLatitude'' \<mapsto>
        IfdTag (ustr ''[40, 26, 23151/500]'') (PyList [Ratio 40 1, Ratio 26 1, Ratio 23151 500]),
      ustr ''GPS GPSLongitude'' \<mapsto>
        IfdTag (ustr ''[79, 56, 55903/1000]'') (PyList [Ratio 79 1, Ratio 56 1, Ratio 55903 1000]),
      ustr ''GPS GPSLatitudeRef'' \<mapsto> IfdTag (ustr ''N'') (PyList []),
      ustr ''GPS GPSLongitudeRef'' \<mapsto> IfdTag (ustr ''W'') (PyList []),
      ustr ''Image Make'' \<mapsto> IfdTag (ustr ''Canon'') (PyList [])]"

definition gps_broken :: tagdict where
  "gps_broken = gps_sample(ustr ''GPS GPSLatitude'' \<mapsto> RawValue (ustr ''40.446195''))"

definition gps_short :: tagdict where
  "gps_short =
     gps_sample(ustr ''GPS GPSLatitude'' \<mapsto> IfdTag (ustr ''[40, 26]'') (PyList [Ratio 40 1, Ratio 26 1]))"


text \<open>A tag table with two entries of \<open>piexif.TAGS\<close>, and outcomes of the four reads:
  an artist in both extractors; the same with a failed flat read; a file none of the
  reads can handle; the point 0, 0 tagged S and W; the coordinates of \<open>gps_sample\<close>.\<close>

definition sample_TAGS :: "pystr \<Rightarrow> nat \<Rightarrow> pystr option" where
  "sample_TAGS ifd tag =
     (if ifd = ustr ''0th'' \<and> tag = 271 then Some (ustr ''Make'')
      else if ifd = ustr ''0th'' \<and> tag = 315 then Some (ustr ''Artist'')
      else None)"

definition obs_both :: observation where
  "obs_both =
     \<lparr>stat_size = Inr 1536,
      image_info = Inr (Some (ustr ''JPEG''), 640, 480),
      exif_tags = Inr [ustr ''Image Artist'' \<mapsto> IfdTag (ustr ''A'') (PyList [])],
      piexif_load = Inr [(ustr ''0th'', IfdDict [(315, PxBytes [66, 0])])]\<rparr>"

definition obs_structured :: observation where
  "obs_structured = obs_both\<lparr>exif_tags := Inl OSError\<rparr>"

definition obs_unreadable :: observation where
  "obs_unreadable =
     \<lparr>stat_size = Inl OSError, image_info = Inl OSError, exif_tags = Inl OSError,
      piexif_load = Inl OSError\<rparr>"




section \<open>The GPS invariant in the words of the specification\<close>



section \<open>The text clean-up in the words of the specification\<close>




section \<open>Properties of \<open>human_size\<close>\<close>






section \<open>Properties of the converters\<close>







text \<open>
  C10. On a list or tuple of fewer than three elements the body of \<open>dms_to_decimal\<close>
  raises \<open>IndexError\<close> inside the \<open>try\<close>, and \<open>dms_to_decimal\<close> returns \<open>None\<close>.
\<close>

theorem dms_to_decimal_short:
  "(length xs < 3 \<longrightarrow>
      dms_to_decimal_try (PyList xs) = Inl IndexError \<and> dms_to_decimal (PyList xs) = None) \<and>
   (length ts < 3 \<longrightarrow>
      dms_to_decimal_try (Tuple ts) = Inl IndexError \<and> dms_to_decimal (Tuple ts) = None)"
proof (intro conjI impI)
  assume short: "length xs < 3"
  show "dms_to_decimal_try (PyList xs) = Inl IndexError"
    using short by (auto simp: dms_to_decimal_try_def Let_def split: sum.splits if_splits)
  then show "dms_to_decimal (PyList xs) = None"
    by (simp add: dms_to_decimal_def)
next
  assume short: "length ts < 3"
  show "dms_to_decimal_try (Tuple ts) = Inl IndexError"
    using short by (auto simp: dms_to_decimal_try_def Let_def split: sum.splits if_splits)
  then show "dms_to_decimal (Tuple ts) = None"
    by (simp add: dms_to_decimal_def)
qed

theorem dms_to_decimal_short_witness:
  "length [Ratio 40 1, Ratio 26 1] < 3 \<and>
   dms_to_decimal_try (PyList [Ratio 40 1, Ratio 26 1]) = Inl IndexError \<and>
   dms_to_decimal (PyList [Ratio 40 1, Ratio 26 1]) = None \<and>
   length ([] :: pyscalar list) < 3 \<and> dms_to_decimal (Tuple []) = None"
  using dms_to_decimal_short [of "[Ratio 40 1, Ratio 26 1]" "[]"] by simp


section \<open>Properties of \<open>parse_exifread_tags\<close>\<close>

lemma gps_try_Some:
  "gps_try tags = Inr (Some g) \<Longrightarrow>
   \<exists>t1 v1 t2 v2 la lo.
     tags (ustr ''GPS GPSLatitude'') = Some (IfdTag t1 v1) \<and>
     tags (ustr ''GPS GPSLongitude'') = Some (IfdTag t2 v2) \<and>
     dms_to_decimal v1 = Some la \<and> dms_to_decimal v2 = Some lo \<and>
     lat_ref g = upper (str_get_default tags ''GPS GPSLatitudeRef'') \<and>
     lon_ref g = upper (str_get_default tags ''GPS GPSLongitudeRef'') \<and>
     lat g = py_round (if startswith (lat_ref g) ''S'' then - \<bar>la\<bar> else la) 6 \<and>
     lon g = py_round (if startswith (lon_ref g) ''W'' then - \<bar>lo\<bar> else lo) 6"
proof -
  assume a: "gps_try tags = Inr (Some g)"
  have ne: "startswith s p \<Longrightarrow> p \<noteq> [] \<Longrightarrow> s \<noteq> []" for s p
    by (auto simp: startswith_def ustr_def)
  from a obtain lt where lt: "tags (ustr ''GPS GPSLatitude'') = Some lt"
    by (auto simp: gps_try_def subscript_def split: option.splits)
  from a lt obtain t1 v1 where lt': "lt = IfdTag t1 v1"
    by (cases lt) (auto simp: gps_try_def subscript_def)
  from a lt obtain ln where ln: "tags (ustr ''GPS GPSLongitude'') = Some ln"
    by (auto simp: gps_try_def subscript_def lt' split: option.splits)
  from a lt ln obtain t2 v2 where ln': "ln = IfdTag t2 v2"
    by (cases ln) (auto simp: gps_try_def subscript_def lt')
  from a lt ln lt' ln' obtain la lo
    where d: "dms_to_decimal v1 = Some la" "dms_to_decimal v2 = Some lo"
    by (auto simp: gps_try_def subscript_def Let_def split: option.splits)
  let ?rlat = "upper (str_get_default tags ''GPS GPSLatitudeRef'')"
  let ?rlon = "upper (str_get_default tags ''GPS GPSLongitudeRef'')"
  from a lt ln lt' ln' d have g:
    "g = \<lparr>lat = py_round (if ?rlat \<noteq> [] \<and> startswith ?rlat ''S'' then - \<bar>la\<bar> else la) 6,
           lon = py_round (if ?rlon \<noteq> [] \<and> startswith ?rlon ''W'' then - \<bar>lo\<bar> else lo) 6,
           lat_ref = ?rlat, lon_ref = ?rlon\<rparr>"
    by (simp add: gps_try_def subscript_def Let_def)
  have "lat g = py_round (if startswith (lat_ref g) ''S'' then - \<bar>la\<bar> else la) 6"
    using ne [of "upper (str_get_default tags ''GPS GPSLatitudeRef'')" "''S''"] by (auto simp: g)
  moreover have "lon g = py_round (if startswith (lon_ref g) ''W'' then - \<bar>lo\<bar> else lo) 6"
    using ne [of "upper (str_get_default tags ''GPS GPSLongitudeRef'')" "''W''"] by (auto simp: g)
  ultimately show ?thesis using lt ln lt' ln' d by (simp add: g)
qed

lemma gps_parse_Some:
  "gps (parse_exifread_tags tags) = Some g \<Longrightarrow> gps_try tags = Inr (Some g)"
  by (auto simp: parse_exifread_tags_def split: if_splits sum.splits)

text \<open>
  C4. The flat extractor stores a GPS entry only when both the latitude tag and the
  longitude tag are present, and none when \<open>dms_to_decimal\<close> fails on the latitude or
  on the longitude: a stored entry has both tags and both conversions. An entry is a
  record of both coordinates, so there is no entry with one of them.
\<close>

theorem gps_requires_both:
  "((tags (ustr ''GPS GPSLatitude'') = None \<or> tags (ustr ''GPS GPSLongitude'') = None) \<longrightarrow>
      gps (parse_exifread_tags tags) = None) \<and>
   (tags (ustr ''GPS GPSLatitude'') = Some (IfdTag t1 v1) \<and>
    tags (ustr ''GPS GPSLongitude'') = Some (IfdTag t2 v2) \<and>
    (dms_to_decimal v1 = None \<or> dms_to_decimal v2 = None) \<longrightarrow>
      gps (parse_exifread_tags tags) = None) \<and>
   (gps (parse_exifread_tags tags) = Some g \<longrightarrow>
      (\<exists>a b c d la lo.
         tags (ustr ''GPS GPSLatitude'') = Some (IfdTag a b) \<and>
         tags (ustr ''GPS GPSLongitude'') = Some (IfdTag c d) \<and>
         dms_to_decimal b = Some la \<and> dms_to_decimal d = Some lo))"
proof (intro conjI impI)
  assume "tags (ustr ''GPS GPSLatitude'') = None \<or> tags (ustr ''GPS GPSLongitude'') = None"
  then show "gps (parse_exifread_tags tags) = None"
    by (auto simp: parse_exifread_tags_def)
next
  assume a: "tags (ustr ''GPS GPSLatitude'') = Some (IfdTag t1 v1) \<and>
    tags (ustr ''GPS GPSLongitude'') = Some (IfdTag t2 v2) \<and>
    (dms_to_decimal v1 = None \<or> dms_to_decimal v2 = None)"
  show "gps (parse_exifread_tags tags) = None"
  proof (cases "gps (parse_exifread_tags tags)")
    case None
    then show ?thesis .
  next
    case (Some g')
    from gps_try_Some [OF gps_parse_Some [OF Some]] a show ?thesis by auto
  qed
next
  assume "gps (parse_exifread_tags tags) = Some g"
  from gps_try_Some [OF gps_parse_Some [OF this]]
  show "\<exists>a b c d la lo.
         tags (ustr ''GPS GPSLatitude'') = Some (IfdTag a b) \<and>
         tags (ustr ''GPS GPSLongitude'') = Some (IfdTag c d) \<and>
         dms_to_decimal b = Some la \<and> dms_to_decimal d = Some lo"
    by blast
qed

lemma gps_sample_gps:
  "gps (parse_exifread_tags gps_sample) =
     Some \<lparr>lat = 40446195 / 1000000, lon = - (79948862 / 1000000),
           lat_ref = ustr ''N'', lon_ref = ustr ''W''\<rparr>"
  by code_simp

theorem gps_requires_both_witness:
  "(gps_sample(ustr ''GPS GPSLongitude'' := None)) (ustr ''GPS GPSLongitude'') = None \<and>
   gps (parse_exifread_tags (gps_sample(ustr ''GPS GPSLongitude'' := None))) = None \<and>
   gps_short (ustr ''GPS GPSLatitude'') = Some (IfdTag (ustr ''[40, 26]'') (PyList [Ratio 40 1, Ratio 26 1])) \<and>
   gps_short (ustr ''GPS GPSLongitude'') =
     Some (IfdTag (ustr ''[79, 56, 55903/1000]'') (PyList [Ratio 79 1, Ratio 56 1, Ratio 55903 1000])) \<and>
   dms_to_decimal (PyList [Ratio 40 1, Ratio 26 1]) = None \<and>
   gps (parse_exifread_tags gps_short) = None \<and>
   gps (parse_exifread_tags gps_sample) =
     Some \<lparr>lat = 40446195 / 1000000, lon = - (79948862 / 1000000),
           lat_ref = ustr ''N'', lon_ref = ustr ''W''\<rparr> \<and>
   dms_to_decimal (PyList [Ratio 40 1, Ratio 26 1, Ratio 23151 500]) = Some (40446195 / 1000000)"
proof -
  have a: "(gps_sample(ustr ''GPS GPSLongitude'' := None)) (ustr ''GPS GPSLongitude'') = None"
    by simp
  have b: "gps_short (ustr ''GPS GPSLatitude'') =
      Some (IfdTag (ustr ''[40, 26]'') (PyList [Ratio 40 1, Ratio 26 1]))"
    by (simp add: gps_short_def)
  have c: "gps_short (ustr ''GPS GPSLongitude'') =
     Some (IfdTag (ustr ''[79, 56, 55903/1000]'') (PyList [Ratio 79 1, Ratio 56 1, Ratio 55903 1000]))"
    by (simp add: gps_short_def gps_sample_def ustr_def)
  have d: "dms_to_decimal (PyList [Ratio 40 1, Ratio 26 1]) = None"
    by (simp add: dms_to_decimal_def dms_to_decimal_try_def)
  have e: "dms_to_decimal (PyList [Ratio 40 1, Ratio 26 1, Ratio 23151 500]) = Some (40446195 / 1000000)"
    by (simp add: dms_to_decimal_def dms_to_decimal_try_def ratio_to_float_def float_div_def)
  show ?thesis
    using a b c d e gps_sample_gps
      gps_requires_both [of "gps_sample(ustr ''GPS GPSLongitude'' := None)"]
      gps_requires_both [of gps_short "ustr ''[40, 26]''" "PyList [Ratio 40 1, Ratio 26 1]"
        "ustr ''[79, 56, 55903/1000]''" "PyList [Ratio 79 1, Ratio 56 1, Ratio 55903 1000]"]
    by simp
qed

lemma get_restrict:
  "ustr k \<notin> gps_keys \<Longrightarrow> get (tags |` (- gps_keys)) k = get tags k"
  by (simp add: get_def)

text \<open>
  C9. When the body of the GPS \<open>try\<close> raises, no GPS entry is stored and nothing else
  changes: for every tag dictionary the fields make, model, datetime_original,
  software and artist of the result are those of the result for the dictionary
  without the four GPS tags, which has no GPS entry.
\<close>

theorem gps_failure_frame:
  "(gps_try tags = Inl e \<longrightarrow> gps (parse_exifread_tags tags) = None) \<and>
   make_field (parse_exifread_tags tags) = make_field (parse_exifread_tags (tags |` (- gps_keys))) \<and>
   model (parse_exifread_tags tags) = model (parse_exifread_tags (tags |` (- gps_keys))) \<and>
   datetime_original (parse_exifread_tags tags) =
     datetime_original (parse_exifread_tags (tags |` (- gps_keys))) \<and>
   software (parse_exifread_tags tags) = software (parse_exifread_tags (tags |` (- gps_keys))) \<and>
   artist (parse_exifread_tags tags) = artist (parse_exifread_tags (tags |` (- gps_keys))) \<and>
   gps (parse_exifread_tags (tags |` (- gps_keys))) = None"
proof -
  have keys: "ustr k \<notin> gps_keys"
    if "k \<in> {''Image Make'', ''Make'', ''Image Model'', ''Model'', ''EXIF DateTimeOriginal'',
         ''EXIF DateTimeDigitized'', ''Image DateTime'', ''Image Software'', ''Software'',
         ''Image Artist'', ''EXIF Artist'', ''Artist''}" for k
    using that by (auto simp: gps_keys_def ustr_def)
  have absent: "(tags |` (- gps_keys)) (ustr ''GPS GPSLatitude'') = None"
    by (simp add: gps_keys_def)
  show ?thesis
    by (simp add: parse_exifread_tags_def get_restrict keys absent split: sum.splits)
qed

theorem gps_failure_frame_witness:
  "gps_try gps_broken = Inl AttributeError \<and>
   gps (parse_exifread_tags gps_broken) = None \<and>
   make_field (parse_exifread_tags gps_broken) = Some (ustr ''Canon'') \<and>
   make_field (parse_exifread_tags (gps_broken |` (- gps_keys))) = Some (ustr ''Canon'')"
proof -
  have a: "gps_try gps_broken = Inl AttributeError"
    by (simp add: gps_broken_def gps_try_def subscript_def)
  have b: "make_field (parse_exifread_tags gps_broken) = Some (ustr ''Canon'')"
    by (simp add: gps_broken_def gps_sample_def parse_exifread_tags_def get_def str_or_def ustr_def)
  show ?thesis
    using a b gps_failure_frame [of gps_broken AttributeError] by simp
qed


section \<open>Properties of \<open>extract_one\<close>\<close>

lemma join_space_nonempty:
  "join_space (truthy_items [mk, md]) = Inr s \<Longrightarrow> truthy_opt mk \<or> truthy_opt md \<Longrightarrow> s \<noteq> []"
proof -
  assume j: "join_space (truthy_items [mk, md]) = Inr s" and t: "truthy_opt mk \<or> truthy_opt md"
  have one: "join_space [v] = Inr s \<Longrightarrow> truthy v \<Longrightarrow> s \<noteq> []" for v
    by (cases v) auto
  have two: "join_space [v, w] = Inr s \<Longrightarrow> s \<noteq> []" for v w
    by (cases v; cases w) (auto simp: ustr_def)
  show ?thesis
    using j t one two
    by (cases mk; cases md) (auto simp: truthy_opt_def split: if_splits)
qed

lemma build_highlights_fields:
  assumes "build_highlights parsed t w h sh = Inr hl"
  shows "hl_author hl =
           (if truthy_opt (or_else (parsed_get parsed artist) (tree_get t ''0th'' ''Artist''))
            then or_else (parsed_get parsed artist) (tree_get t ''0th'' ''Artist'') else None)"
    and "hl_datetime_original hl =
           (if truthy_opt (datetime_of parsed t) then datetime_of parsed t else None)"
    and "hl_gps hl = (case parsed of None \<Rightarrow> None | Some p \<Rightarrow> gps p)"
    and "hl_notes hl =
           build_notes (hl_gps hl) (hl_author hl) (hl_device hl) (hl_datetime_original hl)"
    and "hl_device hl = Some s \<Longrightarrow> s \<noteq> []"
proof -
  let ?mk = "or_else (parsed_get parsed make_field) (tree_get t ''0th'' ''Make'')"
  let ?md = "or_else (parsed_get parsed model) (tree_get t ''0th'' ''Model'')"
  let ?dev = "if truthy_opt ?mk \<or> truthy_opt ?md
              then (case join_space (truthy_items [?mk, ?md]) of
                      Inl e \<Rightarrow> Inl e | Inr s \<Rightarrow> Inr (Some s))
              else Inr None"
  from assms obtain dev where dev: "?dev = Inr dev"
    by (cases ?dev) (simp_all add: build_highlights_def Let_def)
  from assms dev show "hl_author hl =
           (if truthy_opt (or_else (parsed_get parsed artist) (tree_get t ''0th'' ''Artist''))
            then or_else (parsed_get parsed artist) (tree_get t ''0th'' ''Artist'') else None)"
    and "hl_datetime_original hl =
           (if truthy_opt (datetime_of parsed t) then datetime_of parsed t else None)"
    and "hl_gps hl = (case parsed of None \<Rightarrow> None | Some p \<Rightarrow> gps p)"
    and "hl_notes hl =
           build_notes (hl_gps hl) (hl_author hl) (hl_device hl) (hl_datetime_original hl)"
    by (auto simp: build_highlights_def Let_def)
  from assms dev have d: "hl_device hl = dev"
    by (auto simp: build_highlights_def Let_def)
  show "s \<noteq> []" if "hl_device hl = Some s"
  proof -
    from that d dev have "join_space (truthy_items [?mk, ?md]) = Inr s"
      and "truthy_opt ?mk \<or> truthy_opt ?md"
      by (auto split: if_splits sum.splits)
    then show ?thesis by (rule join_space_nonempty)
  qed
qed

lemma extract_one_Inr:
  assumes "extract_one T obs = Inr r"
  shows "build_highlights (exifread r) (piexif r) (width r) (height r) (size_human r)
           = Inr (highlights r)"
    and "exifread r =
           (case exif_tags obs of Inr tags \<Rightarrow> Some (parse_exifread_tags tags) | Inl e \<Rightarrow> None)"
    and "piexif r =
           (case parse_piexif T (piexif_load obs) of Inr t \<Rightarrow> t | Inl e \<Rightarrow> Map.empty)"
  using assms
  by (auto simp: extract_one_def Let_def split: sum.splits prod.splits)

text \<open>The only exception that leaves \<open>extract_one\<close> is the \<open>TypeError\<close> of the
  \<open>join\<close>; when the structured extractor raises there is none, the make and model
  then being texts of the flat extractor.\<close>

lemma join_space_exn: "join_space xs = Inl e \<Longrightarrow> e = TypeError"
  by (induction xs rule: join_space.induct) (auto split: sum.splits)

lemma extract_one_exn: "extract_one T obs = Inl e \<Longrightarrow> e = TypeError"
  by (auto simp: extract_one_def build_highlights_def Let_def
      split: sum.splits prod.splits if_splits dest: join_space_exn)

lemma flat_items_join:
  "\<exists>s. join_space (truthy_items [or_else (parsed_get parsed f) None,
                                   or_else (parsed_get parsed g) None]) = Inr s"
  by (cases parsed; cases "f (the parsed)"; cases "g (the parsed)")
    (auto simp: or_else_def parsed_get_def truthy_opt_def)

lemma extract_one_returns:
  "parse_piexif T (piexif_load obs) = Inl e \<Longrightarrow> \<exists>r. extract_one T obs = Inr r"
proof -
  assume a: "parse_piexif T (piexif_load obs) = Inl e"
  have t: "tree_get Map.empty ifd name = None" for ifd name
    by (simp add: tree_get_def)
  obtain parsed where p: "parsed =
      (case exif_tags obs of Inr tags \<Rightarrow> Some (parse_exifread_tags tags) | Inl e \<Rightarrow> None)"
    by simp
  from flat_items_join [of parsed make_field model] obtain s where
    "join_space (truthy_items [or_else (parsed_get parsed make_field) None,
                               or_else (parsed_get parsed model) None]) = Inr s" ..
  then have "\<exists>hl. build_highlights parsed Map.empty w h sh = Inr hl" for w h sh
    by (simp add: build_highlights_def Let_def t)
  then have ok: "build_highlights parsed Map.empty w h sh \<noteq> Inl x" for w h sh x
    by (metis Inl_Inr_False)
  show ?thesis
    using a ok [unfolded p]
    by (auto simp: extract_one_def Let_def split: sum.splits prod.splits)
qed

text \<open>
  C5. In the record that \<open>extract_one\<close> returns, the author highlight is the flat
  extractor's artist when that is a non-empty text, whatever the structured
  extractor holds under 0th.Artist; when the flat artist is absent (or empty) and the
  structured 0th.Artist is present and true, the author highlight is the structured
  value. With flat "A" and structured "B" the author is "A"; with the flat value
  absent and structured "B" it is "B".
\<close>

theorem author_precedence:
  "extract_one T obs = Inr r \<longrightarrow>
     (parsed_get (exifread r) artist = Some (PxStr a) \<and> a \<noteq> [] \<longrightarrow>
        hl_author (highlights r) = Some (PxStr a)) \<and>
     ((parsed_get (exifread r) artist = None \<or> parsed_get (exifread r) artist = Some (PxStr []))
        \<and> tree_get (piexif r) ''0th'' ''Artist'' = Some b \<and> truthy b \<longrightarrow>
        hl_author (highlights r) = Some b)"
proof (intro impI)
  assume ex: "extract_one T obs = Inr r"
  note f = build_highlights_fields(1) [OF extract_one_Inr(1) [OF ex]]
  show "(parsed_get (exifread r) artist = Some (PxStr a) \<and> a \<noteq> [] \<longrightarrow>
        hl_author (highlights r) = Some (PxStr a)) \<and>
     ((parsed_get (exifread r) artist = None \<or> parsed_get (exifread r) artist = Some (PxStr []))
        \<and> tree_get (piexif r) ''0th'' ''Artist'' = Some b \<and> truthy b \<longrightarrow>
        hl_author (highlights r) = Some b)"
    unfolding f by (auto simp: or_else_def truthy_opt_def)
qed

lemma obs_both_eval:
  "(case extract_one sample_TAGS obs_both of
      Inl e \<Rightarrow> None
    | Inr r \<Rightarrow> Some (parsed_get (exifread r) artist, tree_get (piexif r) ''0th'' ''Artist'',
                     hl_author (highlights r)))
   = Some (Some (PxStr (ustr ''A'')), Some (PxStr (ustr ''B'')), Some (PxStr (ustr ''A'')))"
  by code_simp

lemma obs_structured_eval:
  "(case extract_one sample_TAGS obs_structured of
      Inl e \<Rightarrow> None
    | Inr r \<Rightarrow> Some (parsed_get (exifread r) artist, tree_get (piexif r) ''0th'' ''Artist'',
                     hl_author (highlights r)))
   = Some (None, Some (PxStr (ustr ''B'')), Some (PxStr (ustr ''B'')))"
  by code_simp


theorem author_precedence_witness:
  "(\<exists>r. extract_one sample_TAGS obs_both = Inr r \<and>
        parsed_get (exifread r) artist = Some (PxStr (ustr ''A'')) \<and> ustr ''A'' \<noteq> [] \<and>
        tree_get (piexif r) ''0th'' ''Artist'' = Some (PxStr (ustr ''B'')) \<and>
        hl_author (highlights r) = Some (PxStr (ustr ''A''))) \<and>
   (\<exists>r. extract_one sample_TAGS obs_structured = Inr r \<and>
        parsed_get (exifread r) artist = None \<and>
        tree_get (piexif r) ''0th'' ''Artist'' = Some (PxStr (ustr ''B'')) \<and>
        truthy (PxStr (ustr ''B'')) \<and>
        hl_author (highlights r) = Some (PxStr (ustr ''B'')))"
proof (intro conjI)
  from obs_both_eval obtain r where r: "extract_one sample_TAGS obs_both = Inr r"
    and a: "parsed_get (exifread r) artist = Some (PxStr (ustr ''A''))"
    and b: "tree_get (piexif r) ''0th'' ''Artist'' = Some (PxStr (ustr ''B''))"
    by (auto split: sum.splits)
  have ne: "ustr ''A'' \<noteq> []" by (simp add: ustr_def)
  from author_precedence [of sample_TAGS obs_both r "ustr ''A''"] r a ne
  have "hl_author (highlights r) = Some (PxStr (ustr ''A''))" by blast
  with r a b ne show "\<exists>r. extract_one sample_TAGS obs_both = Inr r \<and>
        parsed_get (exifread r) artist = Some (PxStr (ustr ''A'')) \<and> ustr ''A'' \<noteq> [] \<and>
        tree_get (piexif r) ''0th'' ''Artist'' = Some (PxStr (ustr ''B'')) \<and>
        hl_author (highlights r) = Some (PxStr (ustr ''A''))" by blast
next
  from obs_structured_eval obtain r where r: "extract_one sample_TAGS obs_structured = Inr r"
    and a: "parsed_get (exifread r) artist = None"
    and b: "tree_get (piexif r) ''0th'' ''Artist'' = Some (PxStr (ustr ''B''))"
    by (auto split: sum.splits)
  have t: "truthy (PxStr (ustr ''B''))" by (simp add: ustr_def)
  from author_precedence [of sample_TAGS obs_structured r _ "PxStr (ustr ''B'')"] r a b t
  have "hl_author (highlights r) = Some (PxStr (ustr ''B''))" by blast
  with r a b t show "\<exists>r. extract_one sample_TAGS obs_structured = Inr r \<and>
        parsed_get (exifread r) artist = None \<and>
        tree_get (piexif r) ''0th'' ''Artist'' = Some (PxStr (ustr ''B'')) \<and>
        truthy (PxStr (ustr ''B'')) \<and>
        hl_author (highlights r) = Some (PxStr (ustr ''B''))" by blast
qed

lemma kept_truthy:
  "(\<not> truthy_opt (if truthy_opt x then x else None)) = ((if truthy_opt x then x else None) = None)"
  by (cases x) (auto simp: truthy_opt_def)

text \<open>
  C6. The notes of a returned record are the fixed warnings of the highlights that are
  absent among GPS, author, device and datetime, in that order; a record with none of
  the four has exactly the four notes in the order GPS, author, device, datetime.
\<close>

theorem notes_spec:
  "extract_one T obs = Inr r \<longrightarrow>
     hl_notes (highlights r) =
       (if hl_gps (highlights r) = None then [note_gps] else []) @
       (if hl_author (highlights r) = None then [note_author] else []) @
       (if hl_device (highlights r) = None then [note_device] else []) @
       (if hl_datetime_original (highlights r) = None then [note_datetime] else []) \<and>
     (hl_gps (highlights r) = None \<and> hl_author (highlights r) = None \<and>
      hl_device (highlights r) = None \<and> hl_datetime_original (highlights r) = None \<longrightarrow>
        hl_notes (highlights r) = [note_gps, note_author, note_device, note_datetime])"
proof (intro impI)
  assume ex: "extract_one T obs = Inr r"
  note b = extract_one_Inr(1) [OF ex]
  let ?h = "highlights r"
  have au: "(\<not> truthy_opt (hl_author ?h)) = (hl_author ?h = None)"
    unfolding build_highlights_fields(1) [OF b] by (rule kept_truthy)
  have dt: "(\<not> truthy_opt (hl_datetime_original ?h)) = (hl_datetime_original ?h = None)"
    unfolding build_highlights_fields(2) [OF b] by (rule kept_truthy)
  have dv: "(\<not> (case hl_device ?h of None \<Rightarrow> False | Some s \<Rightarrow> s \<noteq> [])) = (hl_device ?h = None)"
    using build_highlights_fields(5) [OF b] by (cases "hl_device ?h") auto
  have gp: "(\<not> (case hl_gps ?h of None \<Rightarrow> False | Some e \<Rightarrow> True)) = (hl_gps ?h = None)"
    by (cases "hl_gps ?h") auto
  have eq: "hl_notes ?h =
       (if hl_gps ?h = None then [note_gps] else []) @
       (if hl_author ?h = None then [note_author] else []) @
       (if hl_device ?h = None then [note_device] else []) @
       (if hl_datetime_original ?h = None then [note_datetime] else [])"
    unfolding build_highlights_fields(4) [OF b] build_notes_def au dt dv gp ..
  then show "hl_notes ?h =
       (if hl_gps ?h = None then [note_gps] else []) @
       (if hl_author ?h = None then [note_author] else []) @
       (if hl_device ?h = None then [note_device] else []) @
       (if hl_datetime_original ?h = None then [note_datetime] else []) \<and>
     (hl_gps ?h = None \<and> hl_author ?h = None \<and>
      hl_device ?h = None \<and> hl_datetime_original ?h = None \<longrightarrow>
        hl_notes ?h = [note_gps, note_author, note_device, note_datetime])"
    by simp
qed

lemma obs_unreadable_eval:
  "(case extract_one sample_TAGS obs_unreadable of
      Inl e \<Rightarrow> None
    | Inr r \<Rightarrow> Some (hl_gps (highlights r), hl_author (highlights r), hl_device (highlights r),
                     hl_datetime_original (highlights r)))
   = Some (None, None, None, None)"
  by code_simp

theorem notes_spec_witness:
  "\<exists>r. extract_one sample_TAGS obs_unreadable = Inr r \<and>
       hl_gps (highlights r) = None \<and> hl_author (highlights r) = None \<and>
       hl_device (highlights r) = None \<and> hl_datetime_original (highlights r) = None \<and>
       hl_notes (highlights r) =
         [ustr ''No GPS data found (or stripped by app).'',
          ustr ''No author/artist metadata found.'',
          ustr ''No device/make/model info found.'',
          ustr ''No DateTimeOriginal found.'']"
proof -
  from obs_unreadable_eval obtain r where r: "extract_one sample_TAGS obs_unreadable = Inr r"
    and a: "hl_gps (highlights r) = None" "hl_author (highlights r) = None"
      "hl_device (highlights r) = None" "hl_datetime_original (highlights r) = None"
    by (auto split: sum.splits)
  from notes_spec [of sample_TAGS obs_unreadable r] r a
  have "hl_notes (highlights r) = [note_gps, note_author, note_device, note_datetime]"
    by blast
  with r a show ?thesis
    by (auto simp: note_gps_def note_author_def note_device_def note_datetime_def)
qed


section \<open>The GPS entry of a record\<close>











section \<open>Properties of \<open>parse_piexif\<close>\<close>










text \<open>An entry of the loaded data that is no dictionary makes \<open>clean\<close> raise, and
  \<open>parse_piexif\<close> with it; \<open>extract_one\<close> catches that.\<close>

lemma clean_exn: "clean T ex ifd = Inl e \<Longrightarrow> e = AttributeError"
  by (auto simp: clean_def split: option.splits ifdval.splits)

lemma clean_all_not_dict:
  "map_of ex k = Some NotDict \<Longrightarrow> k \<in> set ifds \<Longrightarrow> clean_all T ex ifds out = Inl AttributeError"
proof (induction ifds arbitrary: out)
  case Nil
  then show ?case by simp
next
  case (Cons i rest)
  show ?case
  proof (cases "clean T ex i")
    case (Inl e)
    then show ?thesis using clean_exn [OF Inl] by simp
  next
    case (Inr c)
    with Cons.prems have "i \<noteq> k" by (auto simp: clean_def)
    with Cons.prems have "k \<in> set rest" by simp
    with Inr Cons.IH [OF Cons.prems(1)] show ?thesis by simp
  qed
qed

lemma parse_piexif_not_dict:
  "map_of ex k = Some NotDict \<Longrightarrow> parse_piexif T (Inr ex) = Inl AttributeError"
proof -
  assume a: "map_of ex k = Some NotDict"
  then have "k \<in> set (map fst ex)"
    by (metis map_of_eq_None_iff option.distinct(1) set_map)
  with a show ?thesis by (simp add: parse_piexif_def clean_all_not_dict)
qed

end
